theory Spec2Isabelle
  imports Main "HOL-Library.Word"
begin

unbundle bit_operations_syntax

section \<open>The memoized expression tree of memoize.cpp\<close>

text \<open>
  The host owns the external values; an input terminal only refers to one of them
  (\<^verbatim>\<open>T& src\<close>).  A reference is modelled as an address and the host's variables as
  a function from addresses to values.  Neither pass of the engine writes through a
  reference, so the external values are an argument of every operation and are never
  returned.  The second source file holds the same two contexts inside a namespace,
  with the result type computed by proto instead of fixed; the model is of both.
  Values are the \<^verbatim>\<open>int\<close> of \<^verbatim>\<open>typedef int cached_result\<close>, as 32-bit
  words (the engine only copies and compares them; arithmetic is left to the operators).

  The template parameter \<^verbatim>\<open>T\<close> of \<^verbatim>\<open>input\<close> is taken at \<^verbatim>\<open>int\<close>, as \<^verbatim>\<open>ui_element\<close>
  takes it.  For another \<^verbatim>\<open>T\<close> the terminal case of the evaluation pass in
  memoize.cpp converts the copy to \<^verbatim>\<open>cached_result\<close> when it returns it; nothing below
  speaks of such terminals.
\<close>

type_synonym addr = nat
type_synonym cached_result = "32 word"
type_synonym external_values = "addr \<Rightarrow> cached_result"

text \<open>
  \<^verbatim>\<open>struct input { T& src; mutable T cache; }\<close>.  The constructor
  \<^verbatim>\<open>input(T& source) : src(source), cache()\<close> value-initialises the cache: for
  \<^verbatim>\<open>int\<close> that is zero, whatever the referenced variable holds.
\<close>

record input =
  src :: addr
  cache :: cached_result

definition input_in :: "addr \<Rightarrow> input" where
  "input_in source = \<lparr>src = source, cache = 0\<rparr>"

text \<open>
  The tags of the binary operators that \<^verbatim>\<open>BOOST_PROTO_DEFINE_OPERATORS\<close> makes
  available for terminals of the domain.  Left out are division, modulus and the
  shifts, which C++ leaves undefined for some operands and which otherwise behave
  like \<^verbatim>\<open>+\<close> in both passes, and the assigning operators, which write to their left
  operand.
\<close>

datatype tag =
    tag_plus | tag_minus | tag_multiplies
  | tag_less | tag_greater | tag_less_equal | tag_greater_equal
  | tag_equal_to | tag_not_equal_to
  | tag_logical_or | tag_logical_and
  | tag_bitwise_and | tag_bitwise_or | tag_bitwise_xor
  | tag_comma

text \<open>
  \<^verbatim>\<open>proto::default_eval\<close> of a binary node is the built-in operator between the two
  calls \<^verbatim>\<open>proto::eval(child0, ctx)\<close> and \<^verbatim>\<open>proto::eval(child1, ctx)\<close>.  For \<^verbatim>\<open>||\<close> and
  \<^verbatim>\<open>&&\<close> the built-in operator evaluates its left operand first and its right operand
  only when the left one does not decide: \<open>short_circuit\<close> is the result in the case
  where the second call is never made.  \<open>default_eval\<close> is the operator on both
  child results, with \<^verbatim>\<open>bool\<close> converted to \<^verbatim>\<open>int\<close> and comparisons signed.
\<close>

fun short_circuit :: "tag \<Rightarrow> cached_result \<Rightarrow> cached_result option" where
  "short_circuit tag_logical_or a = (if a = 0 then None else Some 1)"
| "short_circuit tag_logical_and a = (if a = 0 then Some 0 else None)"
| "short_circuit t a = None"

fun default_eval :: "tag \<Rightarrow> cached_result \<Rightarrow> cached_result \<Rightarrow> cached_result" where
  "default_eval tag_plus a b = a + b"
| "default_eval tag_minus a b = a - b"
| "default_eval tag_multiplies a b = a * b"
| "default_eval tag_less a b = of_bool (sint a < sint b)"
| "default_eval tag_greater a b = of_bool (sint a > sint b)"
| "default_eval tag_less_equal a b = of_bool (sint a \<le> sint b)"
| "default_eval tag_greater_equal a b = of_bool (sint a \<ge> sint b)"
| "default_eval tag_equal_to a b = of_bool (a = b)"
| "default_eval tag_not_equal_to a b = of_bool (a \<noteq> b)"
| "default_eval tag_logical_or a b = of_bool (a \<noteq> 0 \<or> b \<noteq> 0)"
| "default_eval tag_logical_and a b = of_bool (a \<noteq> 0 \<and> b \<noteq> 0)"
| "default_eval tag_bitwise_and a b = a AND b"
| "default_eval tag_bitwise_or a b = a OR b"
| "default_eval tag_bitwise_xor a b = a XOR b"
| "default_eval tag_comma a b = b"

text \<open>
  \<^verbatim>\<open>memoize<Expr>\<close> extends every proto expression node, terminal or not, with the
  mutable members \<^verbatim>\<open>result\<close> and \<^verbatim>\<open>dirty\<close>.  Children are held by value
  (\<^verbatim>\<open>memoize_domain::as_child\<close>), so an expression is a tree.
\<close>

datatype memoize =
    Terminal (proto_value: input) (result: cached_result) (dirty: bool)
  | Binary (tag_of: tag) (child0: memoize) (child1: memoize)
      (result: cached_result) (dirty: bool)

text \<open>
  The constructor \<^verbatim>\<open>memoize(Expr const& expr) : base_type(expr), dirty(true)\<close> sets
  the flag and leaves \<^verbatim>\<open>result\<close> uninitialised: the first argument of the two
  builders is whatever that member happens to hold.
\<close>

definition terminal :: "cached_result \<Rightarrow> addr \<Rightarrow> memoize" where
  "terminal u source = Terminal (input_in source) u True"

definition binary :: "cached_result \<Rightarrow> tag \<Rightarrow> memoize \<Rightarrow> memoize \<Rightarrow> memoize" where
  "binary u t l r = Binary t l r u True"

text \<open>A tree as the constructors leave it: every flag set, every cache zero.\<close>

fun fresh :: "memoize \<Rightarrow> bool" where
  "fresh (Terminal i res d) = (d \<and> cache i = 0)"
| "fresh (Binary t l r res d) = (d \<and> fresh l \<and> fresh r)"

subsection \<open>The two passes\<close>

text \<open>
  The members are \<^verbatim>\<open>mutable\<close> and both contexts update them in place; here each
  pass returns the updated tree next to its C++ result.  The third component is
  ghost state: the list of operator bodies that ran, in the order they returned, each
  with the position of its node (the child indices from the root).  It is what an
  instrumented build would print, and nothing in the passes reads it.
\<close>

type_synonym path = "nat list"

datatype event =
    MarkTerminal path bool
  | MarkOperator path bool
  | EvalTerminal path
  | CacheHit path
  | Recompute path tag

text \<open>
  \<^verbatim>\<open>mark_dirty_context::eval\<close>.  Terminal: \<^verbatim>\<open>return e.dirty = !(value.cache == value.src)\<close>.
  Operator: \<^verbatim>\<open>if (e.dirty) return e.dirty;\<close> and otherwise the fold over the
  children from \<^verbatim>\<open>false\<close> with \<^verbatim>\<open>logical_or\<close>, whose two arguments are both
  evaluated before it is called.
\<close>

fun mark_dirty :: "external_values \<Rightarrow> path \<Rightarrow> memoize \<Rightarrow> bool \<times> memoize \<times> event list" where
  "mark_dirty ext p (Terminal i res d) =
     (let b = \<not> (cache i = ext (src i))
      in (b, Terminal i res b, [MarkTerminal p b]))"
| "mark_dirty ext p (Binary t l r res d) =
     (if d then (d, Binary t l r res d, [MarkOperator p d])
      else
        (case mark_dirty ext (p @ [0]) l of (b0, l', tr0) \<Rightarrow>
         case mark_dirty ext (p @ [1]) r of (b1, r', tr1) \<Rightarrow>
           let b = ((False \<or> b0) \<or> b1)
           in (b, Binary t l' r' res b, tr0 @ tr1 @ [MarkOperator p b])))"

text \<open>
  \<^verbatim>\<open>eval_cache_context::eval\<close>.  Terminal: \<^verbatim>\<open>value.cache = value.src; e.dirty = false;
  return value.cache\<close>.  Operator: when dirty, \<^verbatim>\<open>default_eval\<close> evaluates the children
  in this context and applies the operator; the result is stored and the flag cleared.
  A right child that \<^verbatim>\<open>||\<close> or \<^verbatim>\<open>&&\<close> does not evaluate is not touched: it keeps its
  flag, its result and its caches.  When the node is clean the stored result is
  returned and no child is visited.  For the other operators C++ leaves the order of
  the two operand evaluations open; the children are disjoint subtrees and nothing
  writes to an external value, so only the order of the trace depends on it, and the
  trace lists the left child first.
\<close>

fun eval_cache :: "external_values \<Rightarrow> path \<Rightarrow> memoize \<Rightarrow> cached_result \<times> memoize \<times> event list" where
  "eval_cache ext p (Terminal i res d) =
     (let i' = i\<lparr>cache := ext (src i)\<rparr>
      in (cache i', Terminal i' res False, [EvalTerminal p]))"
| "eval_cache ext p (Binary t l r res d) =
     (if d then
        (case eval_cache ext (p @ [0]) l of (v0, l', tr0) \<Rightarrow>
         case short_circuit t v0 of
           Some res' \<Rightarrow> (res', Binary t l' r res' False, tr0 @ [Recompute p t])
         | None \<Rightarrow>
            (case eval_cache ext (p @ [1]) r of (v1, r', tr1) \<Rightarrow>
               let res' = default_eval t v0 v1
               in (res', Binary t l' r' res' False, tr0 @ tr1 @ [Recompute p t])))
      else (res, Binary t l r res d, [CacheHit p]))"

text \<open>\<^verbatim>\<open>reevaluate\<close>: the marking pass, its result dropped, then the evaluation pass.\<close>

definition reevaluate :: "external_values \<Rightarrow> memoize \<Rightarrow> cached_result \<times> memoize \<times> event list" where
  "reevaluate ext e =
     (case mark_dirty ext [] e of (b, e1, tr1) \<Rightarrow>
      case eval_cache ext [] e1 of (v, e2, tr2) \<Rightarrow> (v, e2, tr1 @ tr2))"

text \<open>
  What the host does with a tree it has built: it assigns to its own variables and it
  calls \<^verbatim>\<open>reevaluate\<close>, in any order (\<^verbatim>\<open>_tmain\<close>: two calls, \<^verbatim>\<open>e.i2 += 5\<close>, a
  call).  A session threads the external values and the tree through the steps and
  collects the values the calls return.
\<close>

datatype host_step = assign addr cached_result | call_reevaluate

fun host_run :: "host_step list \<Rightarrow> external_values \<Rightarrow> memoize \<Rightarrow>
    cached_result list \<times> external_values \<times> memoize" where
  "host_run [] ext e = ([], ext, e)"
| "host_run (assign a x # steps) ext e = host_run steps (ext(a := x)) e"
| "host_run (call_reevaluate # steps) ext e =
     (case reevaluate ext e of (v, e', tr) \<Rightarrow>
      case host_run steps ext e' of (vs, ext', e'') \<Rightarrow> (v # vs, ext', e''))"

text \<open>
  \<^verbatim>\<open>struct renderer { std::function<void()> _f; }\<close>.  The closure captures one tree by
  value; an empty \<^verbatim>\<open>_f\<close> is \<open>None\<close>.  \<^verbatim>\<open>operator()\<close> is \<^verbatim>\<open>if (_f) _f();\<close> and the
  closure drops the value \<^verbatim>\<open>reevaluate\<close> returns.
\<close>

type_synonym renderer = "memoize option"

definition renderer_assign :: "renderer \<Rightarrow> memoize \<Rightarrow> renderer" where
  "renderer_assign rd e = Some e"

fun renderer_call :: "external_values \<Rightarrow> renderer \<Rightarrow> renderer \<times> event list" where
  "renderer_call ext None = (None, [])"
| "renderer_call ext (Some e) =
     (case reevaluate ext e of (v, e', tr) \<Rightarrow> (Some e', tr))"

text \<open>
  The expression of \<^verbatim>\<open>ui_element\<close>, \<^verbatim>\<open>in(i1) + in(i2) + in(i3)\<close>, which C++ parses as
  \<^verbatim>\<open>(in(i1) + in(i2)) + in(i3)\<close>; the members \<^verbatim>\<open>i1\<close>, \<^verbatim>\<open>i2\<close>, \<^verbatim>\<open>i3\<close> are the
  addresses 0, 1 and 2.  The arguments are the uninitialised \<^verbatim>\<open>result\<close> members of
  the five nodes.
\<close>

definition ui_element_expr ::
    "cached_result \<Rightarrow> cached_result \<Rightarrow> cached_result \<Rightarrow> cached_result \<Rightarrow> cached_result \<Rightarrow> memoize" where
  "ui_element_expr u0 u1 u2 u3 u4 =
     binary u4 tag_plus
       (binary u2 tag_plus (terminal u0 0) (terminal u1 1))
       (terminal u3 2)"

definition ui_element_fields :: "cached_result \<Rightarrow> cached_result \<Rightarrow> cached_result \<Rightarrow> external_values" where
  "ui_element_fields i1 i2 i3 a = (if a = 0 then i1 else if a = 1 then i2 else i3)"

subsection \<open>Direct evaluation and the invariants of the cache\<close>

text \<open>
  \<^verbatim>\<open>proto_base()\<close>: the expression a \<^verbatim>\<open>memoize\<close> node wraps, without the two mutable
  members and without the terminals' caches.  It is the shape of the tree, which no
  pass changes.
\<close>

datatype expr = terminal_expr addr | binary_expr tag expr expr

fun proto_base :: "memoize \<Rightarrow> expr" where
  "proto_base (Terminal i res d) = terminal_expr (src i)"
| "proto_base (Binary t l r res d) = binary_expr t (proto_base l) (proto_base r)"

text \<open>
  The specification's reference point: the value of the expression over the external
  values, computed with no cache at all, operator by operator as C++ defines them on
  \<^verbatim>\<open>int\<close>.
\<close>

fun direct_eval :: "external_values \<Rightarrow> expr \<Rightarrow> cached_result" where
  "direct_eval ext (terminal_expr a) = ext a"
| "direct_eval ext (binary_expr tag_plus l r) = direct_eval ext l + direct_eval ext r"
| "direct_eval ext (binary_expr tag_minus l r) = direct_eval ext l - direct_eval ext r"
| "direct_eval ext (binary_expr tag_multiplies l r) = direct_eval ext l * direct_eval ext r"
| "direct_eval ext (binary_expr tag_less l r) =
     (if sint (direct_eval ext l) < sint (direct_eval ext r) then 1 else 0)"
| "direct_eval ext (binary_expr tag_greater l r) =
     (if sint (direct_eval ext r) < sint (direct_eval ext l) then 1 else 0)"
| "direct_eval ext (binary_expr tag_less_equal l r) =
     (if sint (direct_eval ext l) \<le> sint (direct_eval ext r) then 1 else 0)"
| "direct_eval ext (binary_expr tag_greater_equal l r) =
     (if sint (direct_eval ext r) \<le> sint (direct_eval ext l) then 1 else 0)"
| "direct_eval ext (binary_expr tag_equal_to l r) =
     (if direct_eval ext l = direct_eval ext r then 1 else 0)"
| "direct_eval ext (binary_expr tag_not_equal_to l r) =
     (if direct_eval ext l = direct_eval ext r then 0 else 1)"
| "direct_eval ext (binary_expr tag_logical_or l r) =
     (if direct_eval ext l = 0 then (if direct_eval ext r = 0 then 0 else 1) else 1)"
| "direct_eval ext (binary_expr tag_logical_and l r) =
     (if direct_eval ext l = 0 then 0 else (if direct_eval ext r = 0 then 0 else 1))"
| "direct_eval ext (binary_expr tag_bitwise_and l r) = direct_eval ext l AND direct_eval ext r"
| "direct_eval ext (binary_expr tag_bitwise_or l r) = direct_eval ext l OR direct_eval ext r"
| "direct_eval ext (binary_expr tag_bitwise_xor l r) = direct_eval ext l XOR direct_eval ext r"
| "direct_eval ext (binary_expr tag_comma l r) = direct_eval ext r"

text \<open>The same session with every call answered by direct evaluation.\<close>

fun direct_run :: "host_step list \<Rightarrow> external_values \<Rightarrow> expr \<Rightarrow> cached_result list" where
  "direct_run [] ext x = []"
| "direct_run (assign a v # steps) ext x = direct_run steps (ext(a := v)) x"
| "direct_run (call_reevaluate # steps) ext x = direct_eval ext x # direct_run steps ext x"

text \<open>The positions of the terminals and of the operator nodes, children before parents.\<close>

fun terminals :: "path \<Rightarrow> expr \<Rightarrow> path list" where
  "terminals p (terminal_expr a) = [p]"
| "terminals p (binary_expr t l r) = terminals (p @ [0]) l @ terminals (p @ [1]) r"

fun operators :: "path \<Rightarrow> expr \<Rightarrow> path list" where
  "operators p (terminal_expr a) = []"
| "operators p (binary_expr t l r) = operators (p @ [0]) l @ operators (p @ [1]) r @ [p]"

text \<open>
  An operator that evaluates both operands whatever their values; an expression all
  of whose operators do.
\<close>

fun eager_tag :: "tag \<Rightarrow> bool" where
  "eager_tag tag_logical_or = False"
| "eager_tag tag_logical_and = False"
| "eager_tag t = True"

fun eager :: "expr \<Rightarrow> bool" where
  "eager (terminal_expr a) = True"
| "eager (binary_expr t l r) = (eager_tag t \<and> eager l \<and> eager r)"

text \<open>
  The nodes direct evaluation reaches: the right operand of \<^verbatim>\<open>||\<close> is not evaluated
  when the left one is not zero, that of \<^verbatim>\<open>&&\<close> when the left one is zero.
\<close>

fun left_decides :: "tag \<Rightarrow> cached_result \<Rightarrow> bool" where
  "left_decides tag_logical_or a = (a \<noteq> 0)"
| "left_decides tag_logical_and a = (a = 0)"
| "left_decides t a = False"

fun reached_terminals :: "external_values \<Rightarrow> path \<Rightarrow> expr \<Rightarrow> path list" where
  "reached_terminals ext p (terminal_expr a) = [p]"
| "reached_terminals ext p (binary_expr t l r) =
     reached_terminals ext (p @ [0]) l @
     (if left_decides t (direct_eval ext l) then [] else reached_terminals ext (p @ [1]) r)"

fun reached_operators :: "external_values \<Rightarrow> path \<Rightarrow> expr \<Rightarrow> path list" where
  "reached_operators ext p (terminal_expr a) = []"
| "reached_operators ext p (binary_expr t l r) =
     reached_operators ext (p @ [0]) l @
     (if left_decides t (direct_eval ext l) then [] else reached_operators ext (p @ [1]) r) @ [p]"

text \<open>
  What a trace says was visited: terminals compared, terminals refreshed, operators
  applied, nodes on which a marking operation ran, operator nodes that answered with
  their stored result.
\<close>

fun compared :: "event list \<Rightarrow> path list" where
  "compared [] = []"
| "compared (MarkTerminal q b # tr) = q # compared tr"
| "compared (ev # tr) = compared tr"

fun refreshed :: "event list \<Rightarrow> path list" where
  "refreshed [] = []"
| "refreshed (EvalTerminal q # tr) = q # refreshed tr"
| "refreshed (ev # tr) = refreshed tr"

fun recomputed :: "event list \<Rightarrow> path list" where
  "recomputed [] = []"
| "recomputed (Recompute q t # tr) = q # recomputed tr"
| "recomputed (ev # tr) = recomputed tr"

fun marked_nodes :: "event list \<Rightarrow> path list" where
  "marked_nodes [] = []"
| "marked_nodes (MarkTerminal q b # tr) = q # marked_nodes tr"
| "marked_nodes (MarkOperator q b # tr) = q # marked_nodes tr"
| "marked_nodes (ev # tr) = marked_nodes tr"

fun cache_hits :: "event list \<Rightarrow> path list" where
  "cache_hits [] = []"
| "cache_hits (CacheHit q # tr) = q # cache_hits tr"
| "cache_hits (ev # tr) = cache_hits tr"

text \<open>Every node's flag is clear.\<close>

fun all_clean :: "memoize \<Rightarrow> bool" where
  "all_clean (Terminal i res d) = (\<not> d)"
| "all_clean (Binary t l r res d) = (\<not> d \<and> all_clean l \<and> all_clean r)"

text \<open>Every node's flag is set.\<close>

fun all_dirty :: "memoize \<Rightarrow> bool" where
  "all_dirty (Terminal i res d) = d"
| "all_dirty (Binary t l r res d) = (d \<and> all_dirty l \<and> all_dirty r)"

text \<open>Every operator node's flag is set (the terminals' flags are free).\<close>

fun operators_dirty :: "memoize \<Rightarrow> bool" where
  "operators_dirty (Terminal i res d) = True"
| "operators_dirty (Binary t l r res d) = (d \<and> operators_dirty l \<and> operators_dirty r)"

text \<open>
  The value a node currently holds: a terminal's private copy, an operator node's
  stored result.
\<close>

fun held :: "memoize \<Rightarrow> cached_result" where
  "held (Terminal i res d) = cache i"
| "held (Binary t l r res d) = res"

text \<open>
  What \<^verbatim>\<open>default_eval\<close> yields on a node whose children yield \<open>a\<close> and \<open>b\<close>.
\<close>

definition apply_operator :: "tag \<Rightarrow> cached_result \<Rightarrow> cached_result \<Rightarrow> cached_result" where
  "apply_operator t a b = (case short_circuit t a of Some w \<Rightarrow> w | None \<Rightarrow> default_eval t a b)"

text \<open>
  Every clean operator node stores its operator applied to what its children hold.
\<close>

fun coherent :: "memoize \<Rightarrow> bool" where
  "coherent (Terminal i res d) = True"
| "coherent (Binary t l r res d) =
     (coherent l \<and> coherent r \<and> (d \<or> res = apply_operator t (held l) (held r)))"

text \<open>
  Every clean operator node stores what evaluating its children over the given
  external values produces.
\<close>

fun cache_valid :: "external_values \<Rightarrow> memoize \<Rightarrow> bool" where
  "cache_valid ext (Terminal i res d) = True"
| "cache_valid ext (Binary t l r res d) =
     (cache_valid ext l \<and> cache_valid ext r \<and>
      (d \<or> res = direct_eval ext (binary_expr t (proto_base l) (proto_base r))))"

text \<open>
  The state between the two passes: a clean terminal's copy equals the external value,
  and below a clean operator node everything is clean and the stored result is the
  direct value.
\<close>

fun flags_current :: "external_values \<Rightarrow> memoize \<Rightarrow> bool" where
  "flags_current ext (Terminal i res d) = (d \<or> cache i = ext (src i))"
| "flags_current ext (Binary t l r res d) =
     (flags_current ext l \<and> flags_current ext r \<and>
      (d \<or> (\<not> dirty l \<and> \<not> dirty r \<and>
            res = direct_eval ext (binary_expr t (proto_base l) (proto_base r)))))"

text \<open>
  The state after an evaluation pass: all flags clear, every copy equal to the
  external value, every stored result the direct value.
\<close>

fun evaluated :: "external_values \<Rightarrow> memoize \<Rightarrow> bool" where
  "evaluated ext (Terminal i res d) = (\<not> d \<and> cache i = ext (src i))"
| "evaluated ext (Binary t l r res d) =
     (\<not> d \<and> evaluated ext l \<and> evaluated ext r \<and>
      res = direct_eval ext (binary_expr t (proto_base l) (proto_base r)))"

section \<open>Properties\<close>

subsection \<open>The operators\<close>

lemma direct_eval_binary:
  "direct_eval ext (binary_expr t l r) = apply_operator t (direct_eval ext l) (direct_eval ext r)"
  by (cases t) (simp_all add: apply_operator_def)

lemma short_circuit_decides: "(short_circuit t a = None) = (\<not> left_decides t a)"
  by (cases t) simp_all

lemma short_circuit_apply: "short_circuit t a = Some w \<Longrightarrow> apply_operator t a b = w"
  by (simp add: apply_operator_def)

lemma no_short_circuit_apply: "short_circuit t a = None \<Longrightarrow> apply_operator t a b = default_eval t a b"
  by (simp add: apply_operator_def)

lemma eager_short_circuit: "eager_tag t \<Longrightarrow> short_circuit t a = None"
  by (cases t) simp_all

lemma eager_left_decides: "eager_tag t \<Longrightarrow> \<not> left_decides t a"
  by (cases t) simp_all

lemma eager_reached:
  "eager x \<Longrightarrow> reached_terminals ext p x = terminals p x \<and> reached_operators ext p x = operators p x"
  by (induction x arbitrary: p) (simp_all add: eager_left_decides)

subsection \<open>What the passes keep\<close>

lemma mark_dirty_flag: "mark_dirty ext p e = (b, e', tr) \<Longrightarrow> dirty e' = b"
  by (cases e) (auto split: prod.splits if_splits simp: Let_def)

lemma mark_dirty_base: "mark_dirty ext p e = (b, e', tr) \<Longrightarrow> proto_base e' = proto_base e"
  by (induction e arbitrary: p b e' tr) (auto split: prod.splits if_splits simp: Let_def)

lemma eval_cache_base: "eval_cache ext p e = (v, e', tr) \<Longrightarrow> proto_base e' = proto_base e"
  by (induction e arbitrary: p v e' tr)
     (auto split: prod.splits if_splits option.splits simp: Let_def)

lemma fresh_flags_current: "fresh e \<Longrightarrow> flags_current ext e"
  by (induction e) auto

lemma clean_current_evaluated: "flags_current ext e \<Longrightarrow> \<not> dirty e \<Longrightarrow> evaluated ext e"
  by (induction e) auto

lemma evaluated_unmarked:
  "evaluated ext0 e \<Longrightarrow> mark_dirty ext p e = (False, e', tr) \<Longrightarrow>
   direct_eval ext (proto_base e) = direct_eval ext0 (proto_base e)"
proof (induction e arbitrary: p e' tr)
  case (Terminal i res d)
  then show ?case by (auto simp: Let_def)
next
  case (Binary t l r res d)
  obtain b0 l' tr0 where ml: "mark_dirty ext (p @ [0]) l = (b0, l', tr0)"
    by (cases "mark_dirty ext (p @ [0]) l") auto
  obtain b1 r' tr1 where mr: "mark_dirty ext (p @ [1]) r = (b1, r', tr1)"
    by (cases "mark_dirty ext (p @ [1]) r") auto
  from Binary.prems have clean: "\<not> d" and el: "evaluated ext0 l" and er: "evaluated ext0 r"
    by auto
  from Binary.prems(2) clean ml mr have "b0 = False" "b1 = False"
    by (auto simp: Let_def)
  with ml mr Binary.IH(1) [OF el] Binary.IH(2) [OF er]
  have "direct_eval ext (proto_base l) = direct_eval ext0 (proto_base l)"
    "direct_eval ext (proto_base r) = direct_eval ext0 (proto_base r)" by auto
  then show ?case by (simp add: direct_eval_binary)
qed

lemma mark_evaluated:
  "evaluated ext0 e \<Longrightarrow> mark_dirty ext p e = (b, e', tr) \<Longrightarrow> flags_current ext e'"
proof (induction e arbitrary: p b e' tr)
  case (Terminal i res d)
  then show ?case by (auto simp: Let_def)
next
  case (Binary t l r res d)
  obtain b0 l' tr0 where ml: "mark_dirty ext (p @ [0]) l = (b0, l', tr0)"
    by (cases "mark_dirty ext (p @ [0]) l") auto
  obtain b1 r' tr1 where mr: "mark_dirty ext (p @ [1]) r = (b1, r', tr1)"
    by (cases "mark_dirty ext (p @ [1]) r") auto
  from Binary.prems(1) have clean: "\<not> d" and el: "evaluated ext0 l" and er: "evaluated ext0 r"
    and res: "res = direct_eval ext0 (binary_expr t (proto_base l) (proto_base r))"
    by auto
  from Binary.prems(2) clean ml mr have e': "e' = Binary t l' r' res (b0 \<or> b1)"
    by (auto simp: Let_def)
  have fl: "flags_current ext l'" using Binary.IH(1) [OF el ml] .
  have fr: "flags_current ext r'" using Binary.IH(2) [OF er mr] .
  have dl: "dirty l' = b0" using mark_dirty_flag [OF ml] .
  have dr: "dirty r' = b1" using mark_dirty_flag [OF mr] .
  have bl: "proto_base l' = proto_base l" using mark_dirty_base [OF ml] .
  have br: "proto_base r' = proto_base r" using mark_dirty_base [OF mr] .
  show ?case
  proof (cases "b0 \<or> b1")
    case True
    with e' fl fr show ?thesis by simp
  next
    case False
    then have "b0 = False" "b1 = False" by auto
    with ml mr el er have "direct_eval ext (proto_base l) = direct_eval ext0 (proto_base l)"
      "direct_eval ext (proto_base r) = direct_eval ext0 (proto_base r)"
      by (auto dest: evaluated_unmarked)
    with res have "res = direct_eval ext (binary_expr t (proto_base l) (proto_base r))"
      by (simp add: direct_eval_binary)
    with e' fl fr dl dr bl br False show ?thesis by simp
  qed
qed

lemma eval_current:
  "eager (proto_base e) \<Longrightarrow> flags_current ext e \<Longrightarrow> eval_cache ext p e = (v, e', tr) \<Longrightarrow>
   v = direct_eval ext (proto_base e) \<and> evaluated ext e'"
proof (induction e arbitrary: p v e' tr)
  case (Terminal i res d)
  then show ?case by (auto simp: Let_def)
next
  case (Binary t l r res d)
  from Binary.prems(1) have et: "eager_tag t" and gl: "eager (proto_base l)"
    and gr: "eager (proto_base r)" by auto
  from Binary.prems(2) have fl: "flags_current ext l" and fr: "flags_current ext r" by auto
  show ?case
  proof (cases d)
    case False
    with Binary.prems(2) have "evaluated ext (Binary t l r res d)"
      by (auto dest: clean_current_evaluated)
    with False Binary.prems(3) show ?thesis by auto
  next
    case True
    obtain v0 l' tr0 where el: "eval_cache ext (p @ [0]) l = (v0, l', tr0)"
      by (cases "eval_cache ext (p @ [0]) l") auto
    obtain v1 r' tr1 where er: "eval_cache ext (p @ [1]) r = (v1, r', tr1)"
      by (cases "eval_cache ext (p @ [1]) r") auto
    from Binary.prems(3) True el er eager_short_circuit [OF et]
    have v: "v = default_eval t v0 v1" and e': "e' = Binary t l' r' (default_eval t v0 v1) False"
      by (auto simp: Let_def)
    from Binary.IH(1) [OF gl fl el] have v0: "v0 = direct_eval ext (proto_base l)"
      and l': "evaluated ext l'" by auto
    from Binary.IH(2) [OF gr fr er] have v1: "v1 = direct_eval ext (proto_base r)"
      and r': "evaluated ext r'" by auto
    have "direct_eval ext (binary_expr t (proto_base l) (proto_base r)) = default_eval t v0 v1"
      using v0 v1 eager_short_circuit [OF et]
      by (simp add: direct_eval_binary no_short_circuit_apply)
    with v e' l' r' eval_cache_base [OF el] eval_cache_base [OF er] show ?thesis by simp
  qed
qed

lemma mark_fresh:
  "fresh e \<Longrightarrow> mark_dirty ext p e = (b, e', tr) \<Longrightarrow> flags_current ext e'"
  by (cases e) (auto simp: Let_def fresh_flags_current)

lemma evaluated_all_clean: "evaluated ext e \<Longrightarrow> all_clean e"
  by (induction e) auto

lemma reevaluate_correct:
  assumes "eager (proto_base e)" and "fresh e \<or> (\<exists>ext0. evaluated ext0 e)"
    and "reevaluate ext e = (v, e', tr)"
  shows "v = direct_eval ext (proto_base e) \<and> evaluated ext e' \<and> proto_base e' = proto_base e"
proof -
  obtain b e1 tr1 where m: "mark_dirty ext [] e = (b, e1, tr1)"
    by (cases "mark_dirty ext [] e") auto
  obtain tr2 where ev: "eval_cache ext [] e1 = (v, e', tr2)"
    using assms(3) m by (auto simp: reevaluate_def split: prod.splits)
  have "flags_current ext e1"
    using assms(2) m by (auto dest: mark_fresh mark_evaluated)
  moreover have "eager (proto_base e1)" using assms(1) mark_dirty_base [OF m] by simp
  ultimately have "v = direct_eval ext (proto_base e1)" "evaluated ext e'"
    using ev by (auto dest: eval_current)
  with mark_dirty_base [OF m] eval_cache_base [OF ev] show ?thesis by simp
qed

subsection \<open>Traces\<close>

lemma compared_append: "compared (xs @ ys) = compared xs @ compared ys"
  by (induction xs rule: compared.induct) auto

lemma refreshed_append: "refreshed (xs @ ys) = refreshed xs @ refreshed ys"
  by (induction xs rule: refreshed.induct) auto

lemma recomputed_append: "recomputed (xs @ ys) = recomputed xs @ recomputed ys"
  by (induction xs rule: recomputed.induct) auto

lemma marked_nodes_append: "marked_nodes (xs @ ys) = marked_nodes xs @ marked_nodes ys"
  by (induction xs rule: marked_nodes.induct) auto

lemma cache_hits_append: "cache_hits (xs @ ys) = cache_hits xs @ cache_hits ys"
  by (induction xs rule: cache_hits.induct) auto

lemma mark_clean_compared:
  "all_clean e \<Longrightarrow> mark_dirty ext p e = (b, e', tr) \<Longrightarrow> compared tr = terminals p (proto_base e)"
  by (induction e arbitrary: p b e' tr)
     (auto split: prod.splits simp: Let_def compared_append)

lemma mark_trace_no_eval:
  "mark_dirty ext p e = (b, e', tr) \<Longrightarrow> refreshed tr = [] \<and> recomputed tr = [] \<and> cache_hits tr = []"
  by (induction e arbitrary: p b e' tr)
     (auto split: prod.splits if_splits simp: Let_def refreshed_append recomputed_append cache_hits_append)

lemma eval_trace_no_mark:
  "eval_cache ext p e = (v, e', tr) \<Longrightarrow> compared tr = [] \<and> marked_nodes tr = []"
  by (induction e arbitrary: p v e' tr)
     (auto split: prod.splits if_splits option.splits simp: Let_def compared_append marked_nodes_append)

lemma mark_last_node:
  "mark_dirty ext p e = (b, e', tr) \<Longrightarrow> marked_nodes tr \<noteq> [] \<and> last (marked_nodes tr) = p"
  by (cases e) (auto split: prod.splits if_splits simp: Let_def marked_nodes_append)

lemma fresh_operators_dirty: "fresh e \<Longrightarrow> operators_dirty e"
  by (induction e) auto

lemma fresh_all_dirty: "fresh e \<Longrightarrow> all_dirty e"
  by (induction e) auto

lemma mark_operators_dirty:
  "operators_dirty e \<Longrightarrow> mark_dirty ext p e = (b, e', tr) \<Longrightarrow> operators_dirty e'"
  by (cases e) (auto simp: Let_def)

lemma eval_held: "eval_cache ext p e = (v, e', tr) \<Longrightarrow> held e' = v"
  by (cases e) (auto split: prod.splits if_splits option.splits simp: Let_def)

lemma eval_operators_dirty:
  "operators_dirty e \<Longrightarrow> eval_cache ext p e = (v, e', tr) \<Longrightarrow>
   v = direct_eval ext (proto_base e) \<and>
   recomputed tr = reached_operators ext p (proto_base e) \<and>
   refreshed tr = reached_terminals ext p (proto_base e) \<and>
   cache_hits tr = []"
proof (induction e arbitrary: p v e' tr)
  case (Terminal i res d)
  then show ?case by (auto simp: Let_def)
next
  case (Binary t l r res d)
  from Binary.prems(1) have d: d and ol: "operators_dirty l" and or: "operators_dirty r" by auto
  obtain v0 l' tr0 where el: "eval_cache ext (p @ [0]) l = (v0, l', tr0)"
    by (cases "eval_cache ext (p @ [0]) l") auto
  note ihl = Binary.IH(1) [OF ol el]
  show ?case
  proof (cases "short_circuit t v0")
    case (Some w)
    with Binary.prems(2) d el have v: "v = w" and tr: "tr = tr0 @ [Recompute p t]"
      by auto
    from Some have "left_decides t v0" using short_circuit_decides [of t v0] by simp
    with ihl v tr short_circuit_apply [OF Some] show ?thesis
      by (simp add: direct_eval_binary recomputed_append refreshed_append cache_hits_append)
  next
    case None
    obtain v1 r' tr1 where er: "eval_cache ext (p @ [1]) r = (v1, r', tr1)"
      by (cases "eval_cache ext (p @ [1]) r") auto
    note ihr = Binary.IH(2) [OF or er]
    from None Binary.prems(2) d el er have v: "v = default_eval t v0 v1"
      and tr: "tr = tr0 @ tr1 @ [Recompute p t]"
      by (auto simp: Let_def)
    from None have "\<not> left_decides t v0" using short_circuit_decides [of t v0] by simp
    with ihl ihr v tr no_short_circuit_apply [OF None] show ?thesis
      by (simp add: direct_eval_binary recomputed_append refreshed_append cache_hits_append)
  qed
qed

subsection \<open>Coherence of the stored results\<close>

lemma mark_held: "mark_dirty ext p e = (b, e', tr) \<Longrightarrow> held e' = held e"
  by (cases e) (auto split: prod.splits if_splits simp: Let_def)

lemma mark_coherent: "coherent e \<Longrightarrow> mark_dirty ext p e = (b, e', tr) \<Longrightarrow> coherent e'"
proof (induction e arbitrary: p b e' tr)
  case (Terminal i res d)
  then show ?case by (auto simp: Let_def)
next
  case (Binary t l r res d)
  show ?case
  proof (cases d)
    case True
    with Binary.prems show ?thesis by auto
  next
    case False
    obtain b0 l' tr0 where ml: "mark_dirty ext (p @ [0]) l = (b0, l', tr0)"
      by (cases "mark_dirty ext (p @ [0]) l") auto
    obtain b1 r' tr1 where mr: "mark_dirty ext (p @ [1]) r = (b1, r', tr1)"
      by (cases "mark_dirty ext (p @ [1]) r") auto
    from Binary.prems(2) False ml mr have e': "e' = Binary t l' r' res (b0 \<or> b1)"
      by (auto simp: Let_def)
    from Binary.prems(1) False have cl: "coherent l" and cr: "coherent r"
      and res: "res = apply_operator t (held l) (held r)" by auto
    from Binary.IH(1) [OF cl ml] Binary.IH(2) [OF cr mr] mark_held [OF ml] mark_held [OF mr] res e'
    show ?thesis by simp
  qed
qed

lemma eval_coherent: "coherent e \<Longrightarrow> eval_cache ext p e = (v, e', tr) \<Longrightarrow> coherent e'"
proof (induction e arbitrary: p v e' tr)
  case (Terminal i res d)
  then show ?case by (auto simp: Let_def)
next
  case (Binary t l r res d)
  show ?case
  proof (cases d)
    case False
    with Binary.prems show ?thesis by auto
  next
    case True
    obtain v0 l' tr0 where el: "eval_cache ext (p @ [0]) l = (v0, l', tr0)"
      by (cases "eval_cache ext (p @ [0]) l") auto
    from Binary.prems(1) have cl: "coherent l" and cr: "coherent r" by auto
    note l' = Binary.IH(1) [OF cl el] eval_held [OF el]
    show ?thesis
    proof (cases "short_circuit t v0")
      case (Some w)
      with Binary.prems(2) True el have "e' = Binary t l' r w False" by auto
      with l' cr short_circuit_apply [OF Some] show ?thesis by simp
    next
      case None
      obtain v1 r' tr1 where er: "eval_cache ext (p @ [1]) r = (v1, r', tr1)"
        by (cases "eval_cache ext (p @ [1]) r") auto
      from None Binary.prems(2) True el er
      have "e' = Binary t l' r' (default_eval t v0 v1) False"
        by (auto simp: Let_def)
      with l' Binary.IH(2) [OF cr er] eval_held [OF er] no_short_circuit_apply [OF None]
      show ?thesis by simp
    qed
  qed
qed

lemma fresh_coherent: "fresh e \<Longrightarrow> coherent e"
  by (induction e) auto

lemma reevaluate_coherent: "coherent e \<Longrightarrow> reevaluate ext e = (v, e', tr) \<Longrightarrow> coherent e'"
  by (auto simp: reevaluate_def split: prod.splits dest: mark_coherent eval_coherent)

lemma flags_current_valid: "flags_current ext e \<Longrightarrow> cache_valid ext e"
  by (induction e) auto

lemma evaluated_clean: "evaluated ext e \<Longrightarrow> \<not> dirty e"
  by (cases e) auto

lemma evaluated_flags_current: "evaluated ext e \<Longrightarrow> flags_current ext e"
  by (induction e) (auto dest: evaluated_clean)

subsection \<open>Host sessions\<close>

lemma host_run_coherent:
  "coherent e \<Longrightarrow> host_run steps ext e = (vs, ext', e') \<Longrightarrow> coherent e'"
proof (induction steps arbitrary: ext e vs)
  case Nil
  then show ?case by simp
next
  case (Cons step steps)
  show ?case
  proof (cases step)
    case (assign a x)
    with Cons.prems(2) have "host_run steps (ext(a := x)) e = (vs, ext', e')"
      by (simp only: host_run.simps)
    from Cons.IH [OF Cons.prems(1) this] show ?thesis .
  next
    case call_reevaluate
    obtain v e1 tr where r: "reevaluate ext e = (v, e1, tr)"
      by (cases "reevaluate ext e") auto
    obtain ws where h: "host_run steps ext e1 = (ws, ext', e')"
      using Cons.prems(2) r call_reevaluate by (auto split: prod.splits)
    from Cons.IH [OF reevaluate_coherent [OF Cons.prems(1) r] h] show ?thesis .
  qed
qed

lemma host_run_evaluated:
  "eager (proto_base e) \<Longrightarrow> \<exists>ext0. evaluated ext0 e \<Longrightarrow>
   host_run steps ext e = (vs, ext', e') \<Longrightarrow> \<exists>ext0. evaluated ext0 e'"
proof (induction steps arbitrary: ext e vs)
  case Nil
  then show ?case by simp
next
  case (Cons step steps)
  show ?case
  proof (cases step)
    case (assign a x)
    with Cons.prems(3) have "host_run steps (ext(a := x)) e = (vs, ext', e')"
      by (simp only: host_run.simps)
    from Cons.IH [OF Cons.prems(1,2) this] show ?thesis .
  next
    case call_reevaluate
    obtain v e1 tr where r: "reevaluate ext e = (v, e1, tr)"
      by (cases "reevaluate ext e") auto
    obtain ws where h: "host_run steps ext e1 = (ws, ext', e')"
      using Cons.prems(3) r call_reevaluate by (auto split: prod.splits)
    from reevaluate_correct [OF Cons.prems(1) _ r] Cons.prems(2)
    have "\<exists>ext0. evaluated ext0 e1" and "eager (proto_base e1)"
      using Cons.prems(1) by auto
    from Cons.IH [OF this(2,1) h] show ?thesis .
  qed
qed

lemma host_run_correct:
  "eager (proto_base e) \<Longrightarrow> fresh e \<or> (\<exists>ext0. evaluated ext0 e) \<Longrightarrow>
   host_run steps ext e = (vs, ext', e') \<Longrightarrow>
   vs = direct_run steps ext (proto_base e) \<and> proto_base e' = proto_base e \<and>
   (fresh e' \<or> (\<exists>ext0. evaluated ext0 e')) \<and>
   (call_reevaluate \<in> set steps \<longrightarrow> (\<exists>ext0. evaluated ext0 e'))"
proof (induction steps arbitrary: ext e vs)
  case Nil
  then show ?case by auto
next
  case (Cons step steps)
  show ?case
  proof (cases step)
    case (assign a x)
    with Cons.prems(3) have "host_run steps (ext(a := x)) e = (vs, ext', e')"
      by (simp only: host_run.simps)
    from Cons.IH [OF Cons.prems(1,2) this] assign show ?thesis
      by (simp only: direct_run.simps list.set insert_iff host_step.distinct simp_thms) blast
  next
    case call_reevaluate
    obtain v e1 tr where r: "reevaluate ext e = (v, e1, tr)"
      by (cases "reevaluate ext e") auto
    obtain ws where h: "host_run steps ext e1 = (ws, ext', e')" and vs: "vs = v # ws"
      using Cons.prems(3) r call_reevaluate by (auto split: prod.splits)
    from reevaluate_correct [OF Cons.prems(1,2) r]
    have v: "v = direct_eval ext (proto_base e)" and ev: "evaluated ext e1"
      and base: "proto_base e1 = proto_base e" by auto
    from base Cons.prems(1) have g: "eager (proto_base e1)" by simp
    from ev have settled: "\<exists>ext0. evaluated ext0 e1" by blast
    then have "fresh e1 \<or> (\<exists>ext0. evaluated ext0 e1)" by blast
    from Cons.IH [OF g this h] host_run_evaluated [OF g settled h] v vs base call_reevaluate
    show ?thesis by simp
  qed
qed

lemma host_run_settled:
  assumes "fresh e0" and "eager (proto_base e0)" and "host_run steps ext0 e0 = (vs, ext, e)"
  shows "fresh e \<or> (\<exists>ext1. evaluated ext1 e)" and "proto_base e = proto_base e0"
    and "call_reevaluate \<in> set steps \<Longrightarrow> \<exists>ext1. evaluated ext1 e"
  using host_run_correct [OF assms(2) _ assms(3)] assms(1) by blast+

lemma host_run_no_call:
  "call_reevaluate \<notin> set steps \<Longrightarrow> host_run steps ext0 e0 = (vs, ext, e) \<Longrightarrow> e = e0"
proof (induction steps arbitrary: ext0)
  case Nil
  then show ?case by simp
next
  case (Cons step steps)
  then show ?case by (cases step) (simp_all del: fun_upd_apply)
qed

lemma host_run_ends_with_call:
  "eager (proto_base e0) \<Longrightarrow> fresh e0 \<or> (\<exists>ext1. evaluated ext1 e0) \<Longrightarrow>
   host_run (steps @ [call_reevaluate]) ext0 e0 = (vs, ext, e) \<Longrightarrow> evaluated ext e"
proof (induction steps arbitrary: ext0 e0 vs)
  case Nil
  obtain v e1 tr where r: "reevaluate ext0 e0 = (v, e1, tr)"
    by (cases "reevaluate ext0 e0") auto
  with Nil.prems(3) have "ext = ext0" "e = e1" by auto
  with reevaluate_correct [OF Nil.prems(1,2) r] show ?case by simp
next
  case (Cons step steps)
  show ?case
  proof (cases step)
    case (assign a x)
    with Cons.prems(3) have "host_run (steps @ [call_reevaluate]) (ext0(a := x)) e0 = (vs, ext, e)"
      by (simp only: host_run.simps append_Cons)
    from Cons.IH [OF Cons.prems(1,2) this] show ?thesis .
  next
    case call_reevaluate
    obtain v e1 tr where r: "reevaluate ext0 e0 = (v, e1, tr)"
      by (cases "reevaluate ext0 e0") auto
    obtain ws where h: "host_run (steps @ [call_reevaluate]) ext0 e1 = (ws, ext, e)"
      using Cons.prems(3) r call_reevaluate by (auto split: prod.splits)
    from reevaluate_correct [OF Cons.prems(1,2) r]
    have "fresh e1 \<or> (\<exists>ext1. evaluated ext1 e1)" and "eager (proto_base e1)"
      using Cons.prems(1) by auto
    from Cons.IH [OF this(2,1) h] show ?thesis .
  qed
qed

lemma proto_base_binary:
  "proto_base e = binary_expr t x y \<Longrightarrow>
   \<exists>l r res d. e = Binary t l r res d \<and> proto_base l = x \<and> proto_base r = y"
  by (cases e) auto

lemma proto_base_terminal:
  "proto_base e = terminal_expr a \<Longrightarrow> \<exists>i res d. e = Terminal i res d \<and> src i = a"
  by (cases e) auto

lemmas ui_defs = ui_element_expr_def ui_element_fields_def binary_def terminal_def input_in_def
  reevaluate_def Let_def

subsection \<open>Equivalence with direct evaluation\<close>

text \<open>
  C1.  The claim asks that every call of \<^verbatim>\<open>reevaluate\<close> return what direct evaluation
  gives.  The code does not do that for \<^verbatim>\<open>in(a) || ((in(b) + in(c)) + in(d))\<close>, built
  fresh, with \<^verbatim>\<open>a, b, c, d = 0, 1, 2, 3\<close>.  The first call returns 1.  After
  \<^verbatim>\<open>a = 1; d = -3\<close> the second call marks the right operand dirty and then does not
  evaluate it, so it stays dirty.  After \<^verbatim>\<open>a = 0; b = 10\<close> the marking pass of the
  third call returns at that dirty node without looking at \<^verbatim>\<open>b\<close>, the evaluation pass
  reads the stored 3 of \<^verbatim>\<open>in(b) + in(c)\<close>, and the call returns 0 where direct
  evaluation gives 1.
\<close>

theorem short_circuit_leaves_stale_result:
  "fresh (binary 0 tag_logical_or (terminal 0 0)
        (binary 0 tag_plus (binary 0 tag_plus (terminal 0 1) (terminal 0 2)) (terminal 0 3))) \<and>
   fst (host_run [assign 1 1, assign 2 2, assign 3 3, call_reevaluate,
                  assign 0 1, assign 3 (- 3), call_reevaluate,
                  assign 0 0, assign 1 10, call_reevaluate]
          (ui_element_fields 0 0 0)
          (binary 0 tag_logical_or (terminal 0 0)
        (binary 0 tag_plus (binary 0 tag_plus (terminal 0 1) (terminal 0 2)) (terminal 0 3)))) = [1, 1, 0] \<and>
   direct_run [assign 1 1, assign 2 2, assign 3 3, call_reevaluate,
               assign 0 1, assign 3 (- 3), call_reevaluate,
               assign 0 0, assign 1 10, call_reevaluate]
          (ui_element_fields 0 0 0)
          (proto_base (binary 0 tag_logical_or (terminal 0 0)
        (binary 0 tag_plus (binary 0 tag_plus (terminal 0 1) (terminal 0 2)) (terminal 0 3)))) = [1, 1, 1]"
  by (simp add: ui_defs)

subsection \<open>The example of the host\<close>

text \<open>
  C8.  With \<^verbatim>\<open>i1 = 1\<close>, \<^verbatim>\<open>i2 = 11\<close>, \<^verbatim>\<open>i3 = 111\<close>, the first \<^verbatim>\<open>reevaluate\<close> of
  \<^verbatim>\<open>in(i1) + in(i2) + in(i3)\<close> returns 123, whatever the uninitialised \<^verbatim>\<open>result\<close>
  members held.
\<close>

theorem ui_element_first_reevaluate:
  "fst (reevaluate (ui_element_fields 1 11 111) (ui_element_expr u0 u1 u2 u3 u4)) = 123"
  by (simp add: ui_defs)

subsection \<open>The renderer\<close>

text \<open>
  C9.  Calling a renderer whose \<^verbatim>\<open>_f\<close> is empty does nothing: no pass runs (the trace
  is empty), the renderer is still empty, and the call has no failing outcome.
\<close>

theorem renderer_call_unbound: "renderer_call ext None = (None, [])"
  by simp

subsection \<open>The invariant of the stored results\<close>

text \<open>
  C2.  As the claim puts it the invariant fails: after the host assigns to an external
  value, and before the next marking pass, a clean operator node still stores the old
  result, while evaluating its children (the evaluation pass on a terminal reads the
  external value) gives the new one.
\<close>

theorem stale_cached_result_counterexample:
  "fresh (binary 0 tag_plus (terminal 0 0) (terminal 0 1)) \<and>
   host_run [call_reevaluate, assign 1 16] (ui_element_fields 1 11 111)
       (binary 0 tag_plus (terminal 0 0) (terminal 0 1)) =
     ([12], (ui_element_fields 1 11 111)(1 := 16),
      Binary tag_plus (Terminal \<lparr>src = 0, cache = 1\<rparr> 0 False)
        (Terminal \<lparr>src = 1, cache = 11\<rparr> 0 False) 12 False) \<and>
   fst (eval_cache ((ui_element_fields 1 11 111)(1 := 16)) [0]
          (Terminal \<lparr>src = 0, cache = 1\<rparr> 0 False)) = 1 \<and>
   fst (eval_cache ((ui_element_fields 1 11 111)(1 := 16)) [1]
          (Terminal \<lparr>src = 1, cache = 11\<rparr> 0 False)) = 16 \<and>
   default_eval tag_plus 1 16 = 17 \<and>
   \<not> cache_valid ((ui_element_fields 1 11 111)(1 := 16))
       (Binary tag_plus (Terminal \<lparr>src = 0, cache = 1\<rparr> 0 False)
          (Terminal \<lparr>src = 1, cache = 11\<rparr> 0 False) 12 False)"
  by (simp add: ui_defs)

text \<open>
  C2, amended.  In every state a session reaches from a freshly built tree, a clean
  operator node stores its operator applied to the values its children hold.  Either
  pass, started at any node of any tree with that property and over any external
  values, keeps it.  In a tree all of whose operators evaluate both operands (no
  \<^verbatim>\<open>||\<close>, no \<^verbatim>\<open>&&\<close>), once
  the marking pass has run over the current external values, and still after the
  evaluation pass, a clean operator node stores what evaluating its children over
  those external values produces.
\<close>

theorem cached_result_invariant:
  assumes "fresh e0" and "host_run steps ext0 e0 = (vs, ext, e)"
  shows "coherent e \<and>
         (coherent x \<longrightarrow> coherent (fst (snd (mark_dirty ext1 p x))) \<and>
                        coherent (fst (snd (eval_cache ext1 p x)))) \<and>
         (eager (proto_base e0) \<longrightarrow>
            cache_valid ext (fst (snd (mark_dirty ext [] e))) \<and>
            cache_valid ext (fst (snd (reevaluate ext e))))"
proof -
  have c: "coherent e"
    using host_run_coherent [OF fresh_coherent [OF assms(1)] assms(2)] .
  have k1: "coherent (fst (snd (mark_dirty ext1 p x)))" if "coherent x"
    using mark_coherent [OF that, of ext1 p] by (cases "mark_dirty ext1 p x") auto
  have k2: "coherent (fst (snd (eval_cache ext1 p x)))" if "coherent x"
    using eval_coherent [OF that, of ext1 p] by (cases "eval_cache ext1 p x") auto
  have "cache_valid ext (fst (snd (mark_dirty ext [] e))) \<and>
        cache_valid ext (fst (snd (reevaluate ext e)))" if g: "eager (proto_base e0)"
  proof -
    note settled = host_run_settled(1) [OF assms(1) g assms(2)]
    from host_run_settled(2) [OF assms(1) g assms(2)] g have ge: "eager (proto_base e)" by simp
    obtain b e1 tr1 where m: "mark_dirty ext [] e = (b, e1, tr1)"
      by (cases "mark_dirty ext [] e") auto
    obtain v e2 tr2 where r: "reevaluate ext e = (v, e2, tr2)"
      by (cases "reevaluate ext e") auto
    from settled m have "flags_current ext e1" by (auto dest: mark_fresh mark_evaluated)
    then have v1: "cache_valid ext e1" by (rule flags_current_valid)
    from reevaluate_correct [OF ge settled r] have "evaluated ext e2" by simp
    then have v2: "cache_valid ext e2"
      by (auto dest: evaluated_flags_current flags_current_valid)
    from m r v1 v2 show ?thesis by simp
  qed
  with c k1 k2 show ?thesis by simp
qed

theorem cached_result_invariant_witness:
  "fresh (ui_element_expr 9 8 7 6 5) \<and> eager (proto_base (ui_element_expr 9 8 7 6 5)) \<and>
   host_run [call_reevaluate, assign 1 16] (ui_element_fields 1 11 111) (ui_element_expr 9 8 7 6 5) =
     ([123], (ui_element_fields 1 11 111)(1 := 16),
      Binary tag_plus
        (Binary tag_plus (Terminal \<lparr>src = 0, cache = 1\<rparr> 9 False)
           (Terminal \<lparr>src = 1, cache = 11\<rparr> 8 False) 12 False)
        (Terminal \<lparr>src = 2, cache = 111\<rparr> 6 False) 123 False) \<and>
   coherent (Binary tag_plus
        (Binary tag_plus (Terminal \<lparr>src = 0, cache = 1\<rparr> 9 False)
           (Terminal \<lparr>src = 1, cache = 11\<rparr> 8 False) 12 False)
        (Terminal \<lparr>src = 2, cache = 111\<rparr> 6 False) 123 False) \<and>
   coherent (fst (snd (mark_dirty (ui_element_fields 2 11 111) []
     (Binary tag_plus
        (Binary tag_plus (Terminal \<lparr>src = 0, cache = 1\<rparr> 9 False)
           (Terminal \<lparr>src = 1, cache = 11\<rparr> 8 False) 12 False)
        (Terminal \<lparr>src = 2, cache = 111\<rparr> 6 False) 123 False)))) \<and>
   coherent (fst (snd (eval_cache (ui_element_fields 2 11 111) []
     (Binary tag_plus
        (Binary tag_plus (Terminal \<lparr>src = 0, cache = 1\<rparr> 9 False)
           (Terminal \<lparr>src = 1, cache = 11\<rparr> 8 False) 12 False)
        (Terminal \<lparr>src = 2, cache = 111\<rparr> 6 False) 123 False)))) \<and>
   fst (snd (mark_dirty ((ui_element_fields 1 11 111)(1 := 16)) []
     (Binary tag_plus
        (Binary tag_plus (Terminal \<lparr>src = 0, cache = 1\<rparr> 9 False)
           (Terminal \<lparr>src = 1, cache = 11\<rparr> 8 False) 12 False)
        (Terminal \<lparr>src = 2, cache = 111\<rparr> 6 False) 123 False))) =
     Binary tag_plus
        (Binary tag_plus (Terminal \<lparr>src = 0, cache = 1\<rparr> 9 False)
           (Terminal \<lparr>src = 1, cache = 11\<rparr> 8 True) 12 True)
        (Terminal \<lparr>src = 2, cache = 111\<rparr> 6 False) 123 True \<and>
   cache_valid ((ui_element_fields 1 11 111)(1 := 16))
     (Binary tag_plus
        (Binary tag_plus (Terminal \<lparr>src = 0, cache = 1\<rparr> 9 False)
           (Terminal \<lparr>src = 1, cache = 11\<rparr> 8 True) 12 True)
        (Terminal \<lparr>src = 2, cache = 111\<rparr> 6 False) 123 True) \<and>
   cache_valid ((ui_element_fields 1 11 111)(1 := 16))
     (fst (snd (reevaluate ((ui_element_fields 1 11 111)(1 := 16))
       (Binary tag_plus
          (Binary tag_plus (Terminal \<lparr>src = 0, cache = 1\<rparr> 9 False)
             (Terminal \<lparr>src = 1, cache = 11\<rparr> 8 False) 12 False)
          (Terminal \<lparr>src = 2, cache = 111\<rparr> 6 False) 123 False))))"
proof -
  have f: "fresh (ui_element_expr 9 8 7 6 5)"
    by (simp add: ui_defs)
  have g: "eager (proto_base (ui_element_expr 9 8 7 6 5))"
    by (simp add: ui_defs)
  have h: "host_run [call_reevaluate, assign 1 16] (ui_element_fields 1 11 111) (ui_element_expr 9 8 7 6 5) =
     ([123], (ui_element_fields 1 11 111)(1 := 16),
      Binary tag_plus
        (Binary tag_plus (Terminal \<lparr>src = 0, cache = 1\<rparr> 9 False)
           (Terminal \<lparr>src = 1, cache = 11\<rparr> 8 False) 12 False)
        (Terminal \<lparr>src = 2, cache = 111\<rparr> 6 False) 123 False)"
    by (simp add: ui_defs)
  show ?thesis
    using f g h cached_result_invariant [OF f h,
        where x = "Binary tag_plus
          (Binary tag_plus (Terminal \<lparr>src = 0, cache = 1\<rparr> 9 False)
             (Terminal \<lparr>src = 1, cache = 11\<rparr> 8 False) 12 False)
          (Terminal \<lparr>src = 2, cache = 111\<rparr> 6 False) 123 False"
        and ?ext1.0 = "ui_element_fields 2 11 111" and p = "[]"]
    by (simp add: ui_defs)
qed

subsection \<open>Idempotence\<close>

text \<open>
  C3.  As the claim puts it, for any tree, it fails: the right operand of \<^verbatim>\<open>||\<close> is not
  evaluated when the left one is not zero, and it keeps its flags.  After the first
  call on \<^verbatim>\<open>in(a) || (in(b) + in(c))\<close> with \<^verbatim>\<open>a = 1\<close> the node \<^verbatim>\<open>in(b) + in(c)\<close> and its
  two terminals are still dirty.
\<close>

theorem skipped_operand_stays_dirty_counterexample:
  "fresh (binary 5 tag_logical_or (terminal 6 0) (binary 7 tag_plus (terminal 8 1) (terminal 9 2))) \<and>
   reevaluate (ui_element_fields 1 11 111)
     (binary 5 tag_logical_or (terminal 6 0) (binary 7 tag_plus (terminal 8 1) (terminal 9 2))) =
     (1,
      Binary tag_logical_or (Terminal \<lparr>src = 0, cache = 1\<rparr> 6 False)
        (Binary tag_plus (Terminal \<lparr>src = 1, cache = 0\<rparr> 8 True)
           (Terminal \<lparr>src = 2, cache = 0\<rparr> 9 True) 7 True) 1 False,
      [MarkOperator [] True, EvalTerminal [0], Recompute [] tag_logical_or]) \<and>
   \<not> all_clean
       (Binary tag_logical_or (Terminal \<lparr>src = 0, cache = 1\<rparr> 6 False)
          (Binary tag_plus (Terminal \<lparr>src = 1, cache = 0\<rparr> 8 True)
             (Terminal \<lparr>src = 2, cache = 0\<rparr> 9 True) 7 True) 1 False)"
  by (simp add: ui_defs)

text \<open>
  C3, amended.  For a tree built fresh from terminals and binary operators that all
  evaluate both operands (no \<^verbatim>\<open>||\<close>, no \<^verbatim>\<open>&&\<close>), in any state a session reaches: two consecutive calls of
  \<^verbatim>\<open>reevaluate\<close> with the external values unchanged return the same value, and after
  the first of them every node's flag is clear.
\<close>

theorem reevaluate_idempotent:
  assumes "fresh e0" and "eager (proto_base e0)" and "host_run steps ext0 e0 = (vs, ext, e)"
  shows "fst (reevaluate ext (fst (snd (reevaluate ext e)))) = fst (reevaluate ext e) \<and>
         all_clean (fst (snd (reevaluate ext e)))"
proof -
  from host_run_settled(2) [OF assms] assms(2) have g: "eager (proto_base e)" by simp
  obtain v1 e1 tr1 where r1: "reevaluate ext e = (v1, e1, tr1)"
    by (cases "reevaluate ext e") auto
  obtain v2 e2 tr2 where r2: "reevaluate ext e1 = (v2, e2, tr2)"
    by (cases "reevaluate ext e1") auto
  from reevaluate_correct [OF g host_run_settled(1) [OF assms] r1]
  have v1: "v1 = direct_eval ext (proto_base e)" and ev: "evaluated ext e1"
    and base: "proto_base e1 = proto_base e" by auto
  from ev have s1: "fresh e1 \<or> (\<exists>ext0. evaluated ext0 e1)" by blast
  from base g have "eager (proto_base e1)" by simp
  from reevaluate_correct [OF this s1 r2] have "v2 = direct_eval ext (proto_base e1)" by simp
  with v1 base r1 r2 evaluated_all_clean [OF ev] show ?thesis by simp
qed

theorem reevaluate_idempotent_witness:
  "fresh (ui_element_expr 9 8 7 6 5) \<and> eager (proto_base (ui_element_expr 9 8 7 6 5)) \<and>
   host_run [call_reevaluate, assign 1 16] (ui_element_fields 1 11 111) (ui_element_expr 9 8 7 6 5) =
     ([123], (ui_element_fields 1 11 111)(1 := 16),
      Binary tag_plus
        (Binary tag_plus (Terminal \<lparr>src = 0, cache = 1\<rparr> 9 False)
           (Terminal \<lparr>src = 1, cache = 11\<rparr> 8 False) 12 False)
        (Terminal \<lparr>src = 2, cache = 111\<rparr> 6 False) 123 False) \<and>
   fst (reevaluate ((ui_element_fields 1 11 111)(1 := 16))
     (Binary tag_plus
        (Binary tag_plus (Terminal \<lparr>src = 0, cache = 1\<rparr> 9 False)
           (Terminal \<lparr>src = 1, cache = 11\<rparr> 8 False) 12 False)
        (Terminal \<lparr>src = 2, cache = 111\<rparr> 6 False) 123 False)) = 128 \<and>
   fst (reevaluate ((ui_element_fields 1 11 111)(1 := 16))
     (fst (snd (reevaluate ((ui_element_fields 1 11 111)(1 := 16))
       (Binary tag_plus
          (Binary tag_plus (Terminal \<lparr>src = 0, cache = 1\<rparr> 9 False)
             (Terminal \<lparr>src = 1, cache = 11\<rparr> 8 False) 12 False)
          (Terminal \<lparr>src = 2, cache = 111\<rparr> 6 False) 123 False))))) = 128 \<and>
   all_clean (fst (snd (reevaluate ((ui_element_fields 1 11 111)(1 := 16))
     (Binary tag_plus
        (Binary tag_plus (Terminal \<lparr>src = 0, cache = 1\<rparr> 9 False)
           (Terminal \<lparr>src = 1, cache = 11\<rparr> 8 False) 12 False)
        (Terminal \<lparr>src = 2, cache = 111\<rparr> 6 False) 123 False))))"
proof -
  have f: "fresh (ui_element_expr 9 8 7 6 5)"
    by (simp add: ui_defs)
  have g: "eager (proto_base (ui_element_expr 9 8 7 6 5))"
    by (simp add: ui_defs)
  have h: "host_run [call_reevaluate, assign 1 16] (ui_element_fields 1 11 111) (ui_element_expr 9 8 7 6 5) =
     ([123], (ui_element_fields 1 11 111)(1 := 16),
      Binary tag_plus
        (Binary tag_plus (Terminal \<lparr>src = 0, cache = 1\<rparr> 9 False)
           (Terminal \<lparr>src = 1, cache = 11\<rparr> 8 False) 12 False)
        (Terminal \<lparr>src = 2, cache = 111\<rparr> 6 False) 123 False)"
    by (simp add: ui_defs)
  show ?thesis using f g h reevaluate_idempotent [OF f g h]
    by (simp add: ui_defs)
qed

subsection \<open>Propagation of a change\<close>

text \<open>
  C4.  The run of \<^verbatim>\<open>_tmain\<close>: after two calls with 1, 11, 111 the host sets
  \<^verbatim>\<open>i2\<close> to 16.  The next call returns 128; marking returns false on the terminals of
  \<^verbatim>\<open>i1\<close> (position 0,0) and \<^verbatim>\<open>i3\<close> (position 1), true on that of \<^verbatim>\<open>i2\<close> (position
  0,1), and the root applies its operator again.
\<close>

theorem single_change_propagation:
  "(case host_run [call_reevaluate, call_reevaluate, assign 1 16]
           (ui_element_fields 1 11 111) (ui_element_expr u0 u1 u2 u3 u4)
    of (vs, ext, e) \<Rightarrow> (vs, fst (reevaluate ext e), snd (snd (reevaluate ext e)))) =
   ([123, 123], 128,
    [MarkTerminal [0, 0] False, MarkTerminal [0, 1] True, MarkOperator [0] True,
     MarkTerminal [1] False, MarkOperator [] True,
     EvalTerminal [0, 0], EvalTerminal [0, 1], Recompute [0] tag_plus,
     EvalTerminal [1], Recompute [] tag_plus])"
  by (simp add: ui_defs)

text \<open>
  C5.  A tree \<^verbatim>\<open>(a + b) + (c + d)\<close>, built fresh, has just been reevaluated and then
  only \<^verbatim>\<open>a\<close> changes (\<^verbatim>\<open>c\<close> and \<^verbatim>\<open>d\<close> are other variables).  The next call applies the
  operator of the left subtree and of the root and no other; the right subtree answers
  from its stored result and its terminals are compared but not refreshed.
\<close>

theorem clean_subtree_skipped:
  assumes run: "host_run (steps @ [call_reevaluate]) ext0
       (binary u6 tag_plus (binary u2 tag_plus (terminal u0 a) (terminal u1 b))
          (binary u5 tag_plus (terminal u3 c) (terminal u4 d))) = (vs, ext, e)"
    and changed: "x \<noteq> ext a" and others: "a \<noteq> c" "a \<noteq> d"
  shows "recomputed (snd (snd (reevaluate (ext(a := x)) e))) = [[0], []] \<and>
         CacheHit [1] \<in> set (snd (snd (reevaluate (ext(a := x)) e))) \<and>
         refreshed (snd (snd (reevaluate (ext(a := x)) e))) = [[0, 0], [0, 1]] \<and>
         compared (snd (snd (reevaluate (ext(a := x)) e))) = [[0, 0], [0, 1], [1, 0], [1, 1]]"
proof -
  let ?e0 = "binary u6 tag_plus (binary u2 tag_plus (terminal u0 a) (terminal u1 b))
          (binary u5 tag_plus (terminal u3 c) (terminal u4 d))"
  have f: "fresh ?e0" by (simp add: binary_def terminal_def input_in_def)
  then have s: "fresh ?e0 \<or> (\<exists>ext1. evaluated ext1 ?e0)" by blast
  have g: "eager (proto_base ?e0)" by (simp add: binary_def terminal_def input_in_def)
  from host_run_ends_with_call [OF g s run] have ev: "evaluated ext e" .
  from host_run_correct [OF g s run]
  have "proto_base e = binary_expr tag_plus (binary_expr tag_plus (terminal_expr a) (terminal_expr b))
      (binary_expr tag_plus (terminal_expr c) (terminal_expr d))"
    by (simp add: binary_def terminal_def input_in_def)
  then obtain l r res0 d0 where e: "e = Binary tag_plus l r res0 d0"
    and bl: "proto_base l = binary_expr tag_plus (terminal_expr a) (terminal_expr b)"
    and br: "proto_base r = binary_expr tag_plus (terminal_expr c) (terminal_expr d)"
    by (auto dest: proto_base_binary)
  from bl obtain la lb res1 d1 where l: "l = Binary tag_plus la lb res1 d1"
    and bla: "proto_base la = terminal_expr a" and blb: "proto_base lb = terminal_expr b"
    by (auto dest: proto_base_binary)
  from br obtain rc rd res2 d2 where r: "r = Binary tag_plus rc rd res2 d2"
    and brc: "proto_base rc = terminal_expr c" and brd: "proto_base rd = terminal_expr d"
    by (auto dest: proto_base_binary)
  from bla obtain ia ra da where la: "la = Terminal ia ra da" "src ia = a"
    by (auto dest: proto_base_terminal)
  from blb obtain ib rb db where lb: "lb = Terminal ib rb db" "src ib = b"
    by (auto dest: proto_base_terminal)
  from brc obtain ic rc' dc where rc: "rc = Terminal ic rc' dc" "src ic = c"
    by (auto dest: proto_base_terminal)
  from brd obtain id' rd' dd where rd: "rd = Terminal id' rd' dd" "src id' = d"
    by (auto dest: proto_base_terminal)
  from ev e l r la lb rc rd changed others show ?thesis
    by (simp add: reevaluate_def Let_def)
qed

theorem clean_subtree_skipped_witness:
  "host_run ([] @ [call_reevaluate]) (ui_element_fields 1 11 111)
       (binary 0 tag_plus (binary 0 tag_plus (terminal 0 0) (terminal 0 1))
          (binary 0 tag_plus (terminal 0 2) (terminal 0 3))) =
     ([234], ui_element_fields 1 11 111,
      Binary tag_plus
        (Binary tag_plus (Terminal \<lparr>src = 0, cache = 1\<rparr> 0 False)
           (Terminal \<lparr>src = 1, cache = 11\<rparr> 0 False) 12 False)
        (Binary tag_plus (Terminal \<lparr>src = 2, cache = 111\<rparr> 0 False)
           (Terminal \<lparr>src = 3, cache = 111\<rparr> 0 False) 222 False) 234 False) \<and>
   (5 :: cached_result) \<noteq> ui_element_fields 1 11 111 0 \<and> (0 :: addr) \<noteq> 2 \<and> (0 :: addr) \<noteq> 3 \<and>
   reevaluate ((ui_element_fields 1 11 111)(0 := 5))
     (Binary tag_plus
        (Binary tag_plus (Terminal \<lparr>src = 0, cache = 1\<rparr> 0 False)
           (Terminal \<lparr>src = 1, cache = 11\<rparr> 0 False) 12 False)
        (Binary tag_plus (Terminal \<lparr>src = 2, cache = 111\<rparr> 0 False)
           (Terminal \<lparr>src = 3, cache = 111\<rparr> 0 False) 222 False) 234 False) =
     (238,
      Binary tag_plus
        (Binary tag_plus (Terminal \<lparr>src = 0, cache = 5\<rparr> 0 False)
           (Terminal \<lparr>src = 1, cache = 11\<rparr> 0 False) 16 False)
        (Binary tag_plus (Terminal \<lparr>src = 2, cache = 111\<rparr> 0 False)
           (Terminal \<lparr>src = 3, cache = 111\<rparr> 0 False) 222 False) 238 False,
      [MarkTerminal [0, 0] True, MarkTerminal [0, 1] False, MarkOperator [0] True,
       MarkTerminal [1, 0] False, MarkTerminal [1, 1] False, MarkOperator [1] False,
       MarkOperator [] True,
       EvalTerminal [0, 0], EvalTerminal [0, 1], Recompute [0] tag_plus,
       CacheHit [1], Recompute [] tag_plus])"
proof -
  have h: "host_run ([] @ [call_reevaluate]) (ui_element_fields 1 11 111)
       (binary 0 tag_plus (binary 0 tag_plus (terminal 0 0) (terminal 0 1))
          (binary 0 tag_plus (terminal 0 2) (terminal 0 3))) =
     ([234], ui_element_fields 1 11 111,
      Binary tag_plus
        (Binary tag_plus (Terminal \<lparr>src = 0, cache = 1\<rparr> 0 False)
           (Terminal \<lparr>src = 1, cache = 11\<rparr> 0 False) 12 False)
        (Binary tag_plus (Terminal \<lparr>src = 2, cache = 111\<rparr> 0 False)
           (Terminal \<lparr>src = 3, cache = 111\<rparr> 0 False) 222 False) 234 False)"
    by (simp add: ui_defs)
  have c: "(5 :: cached_result) \<noteq> ui_element_fields 1 11 111 0"
    by (simp add: ui_defs)
  show ?thesis using h c clean_subtree_skipped [OF h c]
    by (simp add: ui_defs)
qed

subsection \<open>The marking pass\<close>

text \<open>
  C6.  As the claim puts it, with the first call included and for every tree, it
  fails.  The constructor leaves the root operator dirty, so the first marking pass
  returns at the root and compares no terminal.  And an operand that \<^verbatim>\<open>||\<close> did not
  evaluate is still dirty in the next call, whose marking pass returns there: on
  \<^verbatim>\<open>in(a) || (in(b) + in(c))\<close> with \<^verbatim>\<open>a = 1\<close> the second call compares \<^verbatim>\<open>a\<close> only.
\<close>

theorem first_call_compares_no_terminal_counterexample:
  "fresh (ui_element_expr 0 0 0 0 0) \<and>
   compared (snd (snd (reevaluate (ui_element_fields 1 11 111) (ui_element_expr 0 0 0 0 0)))) = [] \<and>
   terminals [] (proto_base (ui_element_expr 0 0 0 0 0)) = [[0, 0], [0, 1], [1]] \<and>
   fresh (binary 5 tag_logical_or (terminal 6 0) (binary 7 tag_plus (terminal 8 1) (terminal 9 2))) \<and>
   compared (snd (snd (reevaluate (ui_element_fields 1 11 111)
     (fst (snd (reevaluate (ui_element_fields 1 11 111)
        (binary 5 tag_logical_or (terminal 6 0) (binary 7 tag_plus (terminal 8 1) (terminal 9 2))))))))) = [[0]] \<and>
   terminals [] (proto_base (binary 5 tag_logical_or (terminal 6 0) (binary 7 tag_plus (terminal 8 1) (terminal 9 2)))) =
     [[0], [1, 0], [1, 1]]"
  by (simp add: ui_defs)

text \<open>
  C6, amended.  For a tree built fresh from terminals and binary operators that all
  evaluate both operands (no \<^verbatim>\<open>||\<close>, no \<^verbatim>\<open>&&\<close>):
  in every call of \<^verbatim>\<open>reevaluate\<close> after the first one the marking pass compares every
  terminal of the tree, once, from left to right.  In the first call after
  construction it compares none when the root is an operator node, and the single
  terminal when the tree is one terminal.
\<close>

theorem marking_pass_compares_terminals:
  assumes "fresh e0" and "eager (proto_base e0)" and "host_run steps ext0 e0 = (vs, ext, e)"
  shows "compared (snd (snd (reevaluate ext e))) =
         (if call_reevaluate \<in> set steps then terminals [] (proto_base e0)
          else case e0 of Terminal i res d \<Rightarrow> [[]] | Binary t l r res d \<Rightarrow> [])"
proof -
  obtain b e1 tr1 where m: "mark_dirty ext [] e = (b, e1, tr1)"
    by (cases "mark_dirty ext [] e") auto
  obtain v e2 tr2 where ev: "eval_cache ext [] e1 = (v, e2, tr2)"
    by (cases "eval_cache ext [] e1") auto
  from m ev have tr: "snd (snd (reevaluate ext e)) = tr1 @ tr2"
    by (simp add: reevaluate_def)
  from eval_trace_no_mark [OF ev] have c: "compared (tr1 @ tr2) = compared tr1"
    by (simp add: compared_append)
  show ?thesis
  proof (cases "call_reevaluate \<in> set steps")
    case True
    from host_run_settled(3) [OF assms True] obtain ext1 where "evaluated ext1 e" by blast
    then have "all_clean e" by (rule evaluated_all_clean)
    from mark_clean_compared [OF this m] host_run_settled(2) [OF assms] tr c True
    show ?thesis by simp
  next
    case False
    from host_run_no_call [OF False assms(3)] have "e = e0" .
    with assms(1) m have "compared tr1 = (case e0 of Terminal i res d \<Rightarrow> [[]] | Binary t l r res d \<Rightarrow> [])"
      by (cases e0) (auto simp: Let_def)
    with tr c False show ?thesis by simp
  qed
qed

theorem marking_pass_compares_terminals_witness:
  "fresh (ui_element_expr 9 8 7 6 5) \<and> eager (proto_base (ui_element_expr 9 8 7 6 5)) \<and>
   host_run [call_reevaluate, assign 1 16] (ui_element_fields 1 11 111) (ui_element_expr 9 8 7 6 5) =
     ([123], (ui_element_fields 1 11 111)(1 := 16),
      Binary tag_plus
        (Binary tag_plus (Terminal \<lparr>src = 0, cache = 1\<rparr> 9 False)
           (Terminal \<lparr>src = 1, cache = 11\<rparr> 8 False) 12 False)
        (Terminal \<lparr>src = 2, cache = 111\<rparr> 6 False) 123 False) \<and>
   compared (snd (snd (reevaluate ((ui_element_fields 1 11 111)(1 := 16))
     (Binary tag_plus
        (Binary tag_plus (Terminal \<lparr>src = 0, cache = 1\<rparr> 9 False)
           (Terminal \<lparr>src = 1, cache = 11\<rparr> 8 False) 12 False)
        (Terminal \<lparr>src = 2, cache = 111\<rparr> 6 False) 123 False)))) = [[0, 0], [0, 1], [1]] \<and>
   terminals [] (proto_base (ui_element_expr 9 8 7 6 5)) = [[0, 0], [0, 1], [1]]"
proof -
  have f: "fresh (ui_element_expr 9 8 7 6 5)"
    by (simp add: ui_defs)
  have g: "eager (proto_base (ui_element_expr 9 8 7 6 5))"
    by (simp add: ui_defs)
  have h: "host_run [call_reevaluate, assign 1 16] (ui_element_fields 1 11 111) (ui_element_expr 9 8 7 6 5) =
     ([123], (ui_element_fields 1 11 111)(1 := 16),
      Binary tag_plus
        (Binary tag_plus (Terminal \<lparr>src = 0, cache = 1\<rparr> 9 False)
           (Terminal \<lparr>src = 1, cache = 11\<rparr> 8 False) 12 False)
        (Terminal \<lparr>src = 2, cache = 111\<rparr> 6 False) 123 False)"
    by (simp add: ui_defs)
  show ?thesis using f g h marking_pass_compares_terminals [OF f g h]
    by (simp add: ui_defs)
qed

text \<open>
  C7.  Marking an operator node that is already dirty returns true, changes nothing
  and visits no child.  Marking a clean one marks the first child, then the second
  whatever the first returned, stores the disjunction of the two results in the flag
  and returns it.
\<close>

theorem mark_dirty_operator:
  "mark_dirty ext p (Binary t l r res True) = (True, Binary t l r res True, [MarkOperator p True]) \<and>
   mark_dirty ext p (Binary t l r res False) =
     (case mark_dirty ext (p @ [0]) l of (b0, l', tr0) \<Rightarrow>
      case mark_dirty ext (p @ [1]) r of (b1, r', tr1) \<Rightarrow>
        (b0 \<or> b1, Binary t l' r' res (b0 \<or> b1), tr0 @ tr1 @ [MarkOperator p (b0 \<or> b1)])) \<and>
   p @ [0] \<in> set (marked_nodes (snd (snd (mark_dirty ext p (Binary t l r res False))))) \<and>
   p @ [1] \<in> set (marked_nodes (snd (snd (mark_dirty ext p (Binary t l r res False)))))"
proof -
  obtain b0 l' tr0 where ml: "mark_dirty ext (p @ [0]) l = (b0, l', tr0)"
    by (cases "mark_dirty ext (p @ [0]) l") auto
  obtain b1 r' tr1 where mr: "mark_dirty ext (p @ [1]) r = (b1, r', tr1)"
    by (cases "mark_dirty ext (p @ [1]) r") auto
  from mark_last_node [OF ml] have "p @ [0] \<in> set (marked_nodes tr0)"
    by (metis last_in_set)
  moreover from mark_last_node [OF mr] have "p @ [1] \<in> set (marked_nodes tr1)"
    by (metis last_in_set)
  ultimately show ?thesis using ml mr
    by (simp add: Let_def marked_nodes_append)
qed

subsection \<open>Construction\<close>

text \<open>
  C10.  As the claim puts it, every node recomputed, it fails for \<^verbatim>\<open>||\<close> and \<^verbatim>\<open>&&\<close>: on
  a fresh \<^verbatim>\<open>in(a) || (in(b) + in(c))\<close> with \<^verbatim>\<open>a = 1\<close> the first call applies the root
  operator only; \<^verbatim>\<open>in(b) + in(c)\<close> is not evaluated and keeps its uninitialised result.
\<close>

theorem first_call_skips_operand_counterexample:
  "fresh (binary 5 tag_logical_or (terminal 6 0) (binary 7 tag_plus (terminal 8 1) (terminal 9 2))) \<and>
   recomputed (snd (snd (reevaluate (ui_element_fields 1 11 111)
     (binary 5 tag_logical_or (terminal 6 0) (binary 7 tag_plus (terminal 8 1) (terminal 9 2)))))) = [[]] \<and>
   operators [] (proto_base (binary 5 tag_logical_or (terminal 6 0) (binary 7 tag_plus (terminal 8 1) (terminal 9 2)))) =
     [[1], []] \<and>
   result (child1 (fst (snd (reevaluate (ui_element_fields 1 11 111)
     (binary 5 tag_logical_or (terminal 6 0) (binary 7 tag_plus (terminal 8 1) (terminal 9 2))))))) = 7 \<and>
   dirty (child1 (fst (snd (reevaluate (ui_element_fields 1 11 111)
     (binary 5 tag_logical_or (terminal 6 0) (binary 7 tag_plus (terminal 8 1) (terminal 9 2)))))))"
  by (simp add: ui_defs)

text \<open>
  C10, amended.  \<^verbatim>\<open>in\<close> gives a terminal whose cache is zero, not the external value,
  and the constructors set every flag.  So the first \<^verbatim>\<open>reevaluate\<close> of a freshly built
  tree, whatever the external values are (also when they equal the zero caches),
  applies the operator of every operator node and refreshes every terminal that
  direct evaluation reaches, answers at no node with a stored result, and returns and
  stores at the root the value of direct evaluation.  When all operators evaluate
  both operands, that is every node of the tree.
\<close>

theorem first_reevaluate_recomputes_everything:
  "cache (input_in a) = 0 \<and> fresh (terminal u a) \<and>
   (fresh l \<and> fresh r \<longrightarrow> fresh (binary u t l r)) \<and>
   (fresh e \<longrightarrow> all_dirty e \<and>
      fst (reevaluate ext e) = direct_eval ext (proto_base e) \<and>
      held (fst (snd (reevaluate ext e))) = direct_eval ext (proto_base e) \<and>
      recomputed (snd (snd (reevaluate ext e))) = reached_operators ext [] (proto_base e) \<and>
      refreshed (snd (snd (reevaluate ext e))) = reached_terminals ext [] (proto_base e) \<and>
      cache_hits (snd (snd (reevaluate ext e))) = [] \<and>
      (eager (proto_base e) \<longrightarrow>
         recomputed (snd (snd (reevaluate ext e))) = operators [] (proto_base e) \<and>
         refreshed (snd (snd (reevaluate ext e))) = terminals [] (proto_base e)))"
proof -
  have "fst (reevaluate ext e) = direct_eval ext (proto_base e) \<and>
      held (fst (snd (reevaluate ext e))) = direct_eval ext (proto_base e) \<and>
      recomputed (snd (snd (reevaluate ext e))) = reached_operators ext [] (proto_base e) \<and>
      refreshed (snd (snd (reevaluate ext e))) = reached_terminals ext [] (proto_base e) \<and>
      cache_hits (snd (snd (reevaluate ext e))) = []" if f: "fresh e"
  proof -
    obtain b e1 tr1 where m: "mark_dirty ext [] e = (b, e1, tr1)"
      by (cases "mark_dirty ext [] e") auto
    obtain v e2 tr2 where ev: "eval_cache ext [] e1 = (v, e2, tr2)"
      by (cases "eval_cache ext [] e1") auto
    from m ev have r: "reevaluate ext e = (v, e2, tr1 @ tr2)"
      by (simp add: reevaluate_def)
    from mark_operators_dirty [OF fresh_operators_dirty [OF f] m] have "operators_dirty e1" .
    from eval_operators_dirty [OF this ev] eval_held [OF ev] mark_trace_no_eval [OF m]
      mark_dirty_base [OF m] r
    show ?thesis by (simp add: recomputed_append refreshed_append cache_hits_append)
  qed
  then show ?thesis
    by (auto simp: input_in_def terminal_def binary_def eager_reached dest: fresh_all_dirty)
qed

theorem first_reevaluate_recomputes_everything_witness:
  "fresh (terminal 3 0) \<and> fresh (terminal 4 1) \<and> fresh (binary 5 tag_plus (terminal 3 0) (terminal 4 1)) \<and>
   all_dirty (binary 5 tag_plus (terminal 3 0) (terminal 4 1)) \<and>
   eager (proto_base (binary 5 tag_plus (terminal 3 0) (terminal 4 1))) \<and>
   reevaluate (ui_element_fields 0 0 0) (binary 5 tag_plus (terminal 3 0) (terminal 4 1)) =
     (0,
      Binary tag_plus (Terminal \<lparr>src = 0, cache = 0\<rparr> 3 False)
        (Terminal \<lparr>src = 1, cache = 0\<rparr> 4 False) 0 False,
      [MarkOperator [] True, EvalTerminal [0], EvalTerminal [1], Recompute [] tag_plus]) \<and>
   direct_eval (ui_element_fields 0 0 0)
     (proto_base (binary 5 tag_plus (terminal 3 0) (terminal 4 1))) = 0 \<and>
   operators [] (proto_base (binary 5 tag_plus (terminal 3 0) (terminal 4 1))) = [[]] \<and>
   terminals [] (proto_base (binary 5 tag_plus (terminal 3 0) (terminal 4 1))) = [[0], [1]]"
  using first_reevaluate_recomputes_everything [where a = 0 and u = 5 and t = tag_plus
      and l = "terminal 3 0" and r = "terminal 4 1"
      and e = "binary 5 tag_plus (terminal 3 0) (terminal 4 1)" and ext = "ui_element_fields 0 0 0"]
  by (simp add: ui_defs)

end
